theory Spec2Isabelle
  imports Main "HOL-Library.Multiset"
begin

section \<open>Enumerations (enums.js)\<close>

datatype location = ORIGIN | DESTINATION | RIVER

datatype mountStatus = ON_DOCK | ON_BOAT

datatype avatarType = HUMAN | MONSTER

datatype gameStatus = ONGOING | WON | LOST

datatype boatStatus = DOCKED | SAILING

section \<open>Model layer\<close>

text \<open>
  Avatar objects are shared: the same object is held by \<open>Game.avatars\<close> and by the
  passenger array of one dock or of the boat, and its fields are mutated in place. The
  model keeps the objects in a store, the list \<open>avatars\<close> of the game (allocation order,
  which is the order of \<open>this.avatars\<close>), and a reference to an avatar is its index there.
  Object identity (\<open>indexOf\<close>, \<open>includes\<close>) is equality of references.
\<close>

type_synonym avatar_ref = nat

subsection \<open>MountObj\<close>

record MountObj =
  minCapacity :: nat
  maxCapacity :: nat
  passengers :: "avatar_ref list"

definition getPassengers :: "'a MountObj_scheme \<Rightarrow> avatar_ref list" where
  "getPassengers m = passengers m"

definition getPassengerCount :: "'a MountObj_scheme \<Rightarrow> nat" where
  "getPassengerCount m = length (passengers m)"

definition isFull :: "'a MountObj_scheme \<Rightarrow> bool" where
  "isFull m = (length (passengers m) \<ge> maxCapacity m)"

definition isEmpty :: "'a MountObj_scheme \<Rightarrow> bool" where
  "isEmpty m = (length (passengers m) = 0)"

definition hasPassenger :: "'a MountObj_scheme \<Rightarrow> avatar_ref \<Rightarrow> bool" where
  "hasPassenger m a = (a \<in> set (passengers m))"

text \<open>Both mutators return the success flag together with the updated object.\<close>

definition addPassenger :: "'a MountObj_scheme \<Rightarrow> avatar_ref \<Rightarrow> bool \<times> 'a MountObj_scheme" where
  "addPassenger m a =
     (if isFull m then (False, m)
      else (True, m\<lparr>passengers := passengers m @ [a]\<rparr>))"

text \<open>\<open>splice(indexOf(avatar), 1)\<close> deletes the first occurrence: \<open>remove1\<close>.\<close>

definition removePassenger :: "'a MountObj_scheme \<Rightarrow> avatar_ref \<Rightarrow> bool \<times> 'a MountObj_scheme" where
  "removePassenger m a =
     (if a \<notin> set (passengers m) then (False, m)
      else (True, m\<lparr>passengers := remove1 a (passengers m)\<rparr>))"

subsection \<open>Dock, Boat, Avatar\<close>

record Dock = MountObj +
  dlocation :: location

definition new_Dock :: "location \<Rightarrow> nat \<Rightarrow> Dock" where
  "new_Dock loc maxCap =
     \<lparr>minCapacity = 0, maxCapacity = maxCap, passengers = [], dlocation = loc\<rparr>"

record Boat = MountObj +
  blocation :: location
  bstatus :: boatStatus

definition new_Boat :: "nat \<Rightarrow> nat \<Rightarrow> Boat" where
  "new_Boat maxCap minCap =
     \<lparr>minCapacity = minCap, maxCapacity = maxCap, passengers = [],
      blocation = ORIGIN, bstatus = DOCKED\<rparr>"

definition getDestinationLocation :: "Boat \<Rightarrow> location" where
  "getDestinationLocation b =
     (if blocation b = ORIGIN then DESTINATION
      else if blocation b = DESTINATION then ORIGIN
      else ORIGIN)"

definition canSail :: "Boat \<Rightarrow> bool" where
  "canSail b = (length (passengers b) \<ge> minCapacity b)"

record Avatar =
  atype :: avatarType
  aid :: string
  alocation :: location
  mounted :: mountStatus

definition new_Avatar :: "avatarType \<Rightarrow> string \<Rightarrow> Avatar" where
  "new_Avatar ty ident =
     \<lparr>atype = ty, aid = ident, alocation = ORIGIN, mounted = ON_DOCK\<rparr>"

subsection \<open>The part of the view that the game logic depends on\<close>

text \<open>
  Of \<open>ViewController\<close> the model keeps the flag \<open>isAnimating\<close> and the callbacks that
  \<open>setTimeout\<close> has scheduled and that change the flag or the game: the end of a voyage
  (with the \<open>voyageTo\<close> its closure captured) and the end of the feast animation.
  Callbacks are kept in scheduling order. The DOM is not modelled; the calls the game
  makes into the view are recorded as events.
\<close>

datatype timer = VoyageTimer location | FeastTimer

record ViewController =
  isAnimating :: bool
  timers :: "timer list"

definition new_ViewController :: ViewController where
  "new_ViewController = \<lparr>isAnimating = False, timers = []\<rparr>"

datatype view_event =
    ShowMessage string string
  | Render
  | PlayVoyageAnimation
  | PlayWinAnimation
  | PlayFeastAnimation "avatar_ref list" "avatar_ref list"
  | ConsoleError

text \<open>How a call ends: it returns, or a \<open>TypeError\<close> leaves it (a method called on \<open>null\<close>
  or \<open>undefined\<close>).\<close>

datatype completion = Normal | TypeError

definition playVoyageAnimation :: "ViewController \<Rightarrow> location \<Rightarrow> ViewController" where
  "playVoyageAnimation v voyageTo =
     v\<lparr>isAnimating := True, timers := timers v @ [VoyageTimer voyageTo]\<rparr>"

text \<open>
  \<open>playFeastAnimation\<close> sets the flag, then assigns a prey to every predator with
  \<open>preyList[preyIndex].getId()\<close>, which throws when there is a predator and no prey.
\<close>

definition playFeastAnimation ::
  "ViewController \<Rightarrow> avatar_ref list \<Rightarrow> avatar_ref list \<Rightarrow> completion \<times> ViewController" where
  "playFeastAnimation v predatorList preyList =
     (let v1 = v\<lparr>isAnimating := True\<rparr> in
      if predatorList \<noteq> [] \<and> preyList = [] then (TypeError, v1)
      else (Normal, v1\<lparr>timers := timers v1 @ [FeastTimer]\<rparr>))"

subsection \<open>Game\<close>

record Game =
  numMonsters :: nat
  numHumans :: nat
  totalAvatars :: nat
  boatCapacity :: nat
  status :: gameStatus
  tripCount :: nat
  avatars :: "Avatar list"
  boat :: Boat
  dockOrigin :: Dock
  dockDestination :: Dock
  view :: ViewController

text \<open>The result of a method of the game: how it ended, the calls it made into the
  view, and the game afterwards.\<close>

type_synonym result = "completion \<times> view_event list \<times> Game"

abbreviation completion_of :: "result \<Rightarrow> completion" where
  "completion_of r \<equiv> fst r"

abbreviation events_of :: "result \<Rightarrow> view_event list" where
  "events_of r \<equiv> fst (snd r)"

abbreviation state_of :: "result \<Rightarrow> Game" where
  "state_of r \<equiv> snd (snd r)"

text \<open>Decimal digits of a number, for the template literals \<open>monster-${i}\<close> and \<open>human-${i}\<close>.\<close>

fun string_of_nat :: "nat \<Rightarrow> string" where
  "string_of_nat n =
     (if n < 10 then [char_of (48 + n)]
      else string_of_nat (n div 10) @ [char_of (48 + n mod 10)])"

declare string_of_nat.simps [simp del]

text \<open>One \<open>for\<close> loop of \<open>initialize\<close>: the new avatar is pushed on \<open>this.avatars\<close> and
  added to the origin dock.\<close>

fun createAvatars ::
  "avatarType \<Rightarrow> string \<Rightarrow> nat list \<Rightarrow> Avatar list \<times> Dock \<Rightarrow> Avatar list \<times> Dock" where
  "createAvatars ty prefix [] s = s"
| "createAvatars ty prefix (i # is) (avs, d) =
     createAvatars ty prefix is
       (avs @ [new_Avatar ty (prefix @ string_of_nat i)],
        snd (addPassenger d (length avs)))"

text \<open>
  \<open>GameController.startNewGame\<close>: the constructor of \<open>Game\<close>, \<open>initialize\<close>, a new view
  and \<open>this.game.view = this.view\<close>. The random \<open>uuid\<close> fields are left out.
\<close>

definition startNewGame :: "nat \<Rightarrow> nat \<Rightarrow> nat \<Rightarrow> Game" where
  "startNewGame nMonsters nHumans boatCap =
     (let total = nMonsters + nHumans;
          d0 = new_Dock ORIGIN total;
          (avs1, d1) = createAvatars MONSTER ''monster-'' [0..<nMonsters] ([], d0);
          (avs2, d2) = createAvatars HUMAN ''human-'' [0..<nHumans] (avs1, d1)
      in \<lparr>numMonsters = nMonsters, numHumans = nHumans, totalAvatars = total,
          boatCapacity = boatCap, status = ONGOING, tripCount = 0,
          avatars = avs2, boat = new_Boat boatCap 1,
          dockOrigin = d2, dockDestination = new_Dock DESTINATION total,
          view = new_ViewController\<rparr>)"

text \<open>
  \<open>getDockByLocation\<close> returns one of the two dock objects of the game, or \<open>null\<close>.
  The docks are mutated through the returned reference, so the model returns which
  dock it is; \<open>deref\<close> reads the object and \<open>assign\<close> writes it back.
\<close>

datatype dock_ref = DockOrigin | DockDestination

definition getDockByLocation :: "location \<Rightarrow> dock_ref option" where
  "getDockByLocation loc =
     (if loc = ORIGIN then Some DockOrigin
      else if loc = DESTINATION then Some DockDestination
      else None)"

fun deref :: "Game \<Rightarrow> dock_ref \<Rightarrow> Dock" where
  "deref g DockOrigin = dockOrigin g"
| "deref g DockDestination = dockDestination g"

fun assign :: "Game \<Rightarrow> dock_ref \<Rightarrow> Dock \<Rightarrow> Game" where
  "assign g DockOrigin d = g\<lparr>dockOrigin := d\<rparr>"
| "assign g DockDestination d = g\<lparr>dockDestination := d\<rparr>"

definition setMounted :: "Avatar list \<Rightarrow> avatar_ref \<Rightarrow> mountStatus \<Rightarrow> Avatar list" where
  "setMounted avs a m = avs[a := (avs ! a)\<lparr>mounted := m\<rparr>]"

definition setLocation :: "Avatar list \<Rightarrow> avatar_ref \<Rightarrow> location \<Rightarrow> Avatar list" where
  "setLocation avs a loc = avs[a := (avs ! a)\<lparr>alocation := loc\<rparr>]"

text \<open>\<open>passengers.forEach((avatar) => avatar.setLocation(loc))\<close>\<close>

fun setLocationAll :: "avatar_ref list \<Rightarrow> location \<Rightarrow> Avatar list \<Rightarrow> Avatar list" where
  "setLocationAll [] loc avs = avs"
| "setLocationAll (a # as) loc avs = setLocationAll as loc (setLocation avs a loc)"

definition handleAvatarClick :: "Game \<Rightarrow> avatar_ref \<Rightarrow> result" where
  "handleAvatarClick g a =
     (if status g \<noteq> ONGOING then (Normal, [], g)
      else if mounted (avatars g ! a) = ON_DOCK then
        (case getDockByLocation (blocation (boat g)) of
           None \<Rightarrow> (TypeError, [], g)
         | Some r \<Rightarrow>
             if \<not> hasPassenger (deref g r) a then
               (Normal, [ShowMessage ''Boat is on the other side!'' ''info''], g)
             else if isFull (boat g) then
               (Normal, [ShowMessage ''Boat is at full capacity!'' ''info''], g)
             else
               (let g1 = assign g r (snd (removePassenger (deref g r) a));
                    g2 = g1\<lparr>boat := snd (addPassenger (boat g1) a)\<rparr>;
                    g3 = g2\<lparr>avatars := setMounted (avatars g2) a ON_BOAT\<rparr>
                in (Normal, [Render], g3)))
      else if mounted (avatars g ! a) = ON_BOAT then
        (if \<not> hasPassenger (boat g) a then (Normal, [], g)
         else
           (let g1 = g\<lparr>boat := snd (removePassenger (boat g) a)\<rparr> in
            case getDockByLocation (blocation (boat g1)) of
              None \<Rightarrow> (TypeError, [], g1)
            | Some r \<Rightarrow>
                (let g2 = assign g1 r (snd (addPassenger (deref g1 r) a));
                     g3 = g2\<lparr>avatars := setMounted (avatars g2) a ON_DOCK\<rparr>
                 in (Normal, [Render], g3))))
      else (Normal, [ConsoleError], g))"

definition handleBoatClick :: "Game \<Rightarrow> result" where
  "handleBoatClick g =
     (if status g \<noteq> ONGOING then (Normal, [], g)
      else if \<not> canSail (boat g) then
        (Normal, [ShowMessage ''Someone needs to row the boat!'' ''info''], g)
      else
        (let voyageTo = getDestinationLocation (boat g);
             g1 = g\<lparr>boat := (boat g)\<lparr>bstatus := SAILING\<rparr>\<rparr>;
             g2 = g1\<lparr>boat := (boat g1)\<lparr>blocation := RIVER\<rparr>\<rparr>;
             g3 = g2\<lparr>avatars := setLocationAll (getPassengers (boat g2)) RIVER (avatars g2)\<rparr>;
             g4 = g3\<lparr>tripCount := tripCount g3 + 1\<rparr>;
             g5 = g4\<lparr>view := playVoyageAnimation (view g4) voyageTo\<rparr>
         in (Normal, [PlayVoyageAnimation], g5)))"

text \<open>The counting loops of \<open>isBalanced\<close>: the pair is \<open>(monsters, humans)\<close>.\<close>

fun countAvatars :: "Avatar list \<Rightarrow> avatar_ref list \<Rightarrow> nat \<times> nat \<Rightarrow> nat \<times> nat" where
  "countAvatars avs [] c = c"
| "countAvatars avs (a # as) (monsters, humans) =
     countAvatars avs as
       (if atype (avs ! a) = MONSTER then (monsters + 1, humans)
        else if atype (avs ! a) = HUMAN then (monsters, humans + 1)
        else (monsters, humans))"

definition isBalanced :: "Game \<Rightarrow> Dock \<Rightarrow> bool" where
  "isBalanced g dock =
     (let c1 = countAvatars (avatars g) (getPassengers dock) (0, 0);
          c2 = (if dlocation dock = blocation (boat g)
                then countAvatars (avatars g) (getPassengers (boat g)) c1
                else c1);
          monsters = fst c2;
          humans = snd c2
      in humans = 0 \<or> humans \<ge> monsters)"

text \<open>The listing loops of \<open>handleFeast\<close>: the pair is \<open>(predatorList, preyList)\<close>.\<close>

fun listAvatars ::
  "Avatar list \<Rightarrow> avatar_ref list \<Rightarrow> avatar_ref list \<times> avatar_ref list
     \<Rightarrow> avatar_ref list \<times> avatar_ref list" where
  "listAvatars avs [] l = l"
| "listAvatars avs (a # as) (predatorList, preyList) =
     listAvatars avs as
       (if atype (avs ! a) = MONSTER then (predatorList @ [a], preyList)
        else if atype (avs ! a) = HUMAN then (predatorList, preyList @ [a])
        else (predatorList, preyList))"

definition feastLists :: "Game \<Rightarrow> Dock \<Rightarrow> avatar_ref list \<times> avatar_ref list" where
  "feastLists g dock =
     (let l1 = listAvatars (avatars g) (getPassengers dock) ([], [])
      in if dlocation dock = blocation (boat g)
         then listAvatars (avatars g) (getPassengers (boat g)) l1
         else l1)"

definition handleFeast :: "Game \<Rightarrow> Dock \<Rightarrow> result" where
  "handleFeast g dock =
     (let (predatorList, preyList) = feastLists g dock;
          (c, v) = playFeastAnimation (view g) predatorList preyList
      in (c, [PlayFeastAnimation predatorList preyList], g\<lparr>view := v\<rparr>))"

text \<open>
  \<open>handleGameStatus\<close>. The statements that follow \<open>return true\<close> inside the win branch
  are never executed and are left out.
\<close>

definition winCondition :: "Game \<Rightarrow> bool" where
  "winCondition g =
     (isEmpty (dockOrigin g) \<and> blocation (boat g) = DESTINATION \<and>
      getPassengerCount (dockDestination g) + getPassengerCount (boat g) \<ge> totalAvatars g)"

definition handleGameStatus :: "Game \<Rightarrow> result" where
  "handleGameStatus g =
     (if status g \<noteq> ONGOING then (Normal, [], g)
      else if winCondition g then (Normal, [PlayWinAnimation], g\<lparr>status := WON\<rparr>)
      else if \<not> isBalanced g (dockOrigin g) then
        handleFeast (g\<lparr>status := LOST\<rparr>) (dockOrigin g)
      else if \<not> isBalanced g (dockDestination g) then
        handleFeast (g\<lparr>status := LOST\<rparr>) (dockDestination g)
      else (Normal, [], g))"

text \<open>The callback that \<open>handleBoatClick\<close> passes to \<open>playVoyageAnimation\<close>.\<close>

definition voyageCallback :: "Game \<Rightarrow> location \<Rightarrow> result" where
  "voyageCallback g voyageTo =
     (let g1 = g\<lparr>boat := (boat g)\<lparr>bstatus := DOCKED\<rparr>\<rparr>;
          g2 = g1\<lparr>boat := (boat g1)\<lparr>blocation := voyageTo\<rparr>\<rparr>;
          g3 = g2\<lparr>avatars := setLocationAll (getPassengers (boat g2)) voyageTo (avatars g2)\<rparr>;
          r = handleGameStatus g3
      in (completion_of r, Render # events_of r, state_of r))"

section \<open>Entry points: the click listeners and the timers\<close>

text \<open>
  The listeners that \<open>bindEvents\<close> and \<open>createAvatarElement\<close> attach call the game only
  when \<open>isAnimating\<close> is false. (\<open>createAvatarElement\<close> moreover attaches no listener to a
  passenger of the boat rendered while the boat is on the river.)
\<close>

definition boatClickListener :: "Game \<Rightarrow> result" where
  "boatClickListener g =
     (if \<not> isAnimating (view g) then handleBoatClick g else (Normal, [], g))"

definition avatarClickListener :: "Game \<Rightarrow> avatar_ref \<Rightarrow> result" where
  "avatarClickListener g a =
     (if \<not> isAnimating (view g) then handleAvatarClick g a else (Normal, [], g))"

text \<open>
  The oldest scheduled callback runs. The one of \<open>playVoyageAnimation\<close> clears the flag
  and calls the voyage callback; the last one of \<open>playFeastAnimation\<close> clears the flag
  and shows the closing message.
\<close>

definition timerFires :: "Game \<Rightarrow> result" where
  "timerFires g =
     (case timers (view g) of
        [] \<Rightarrow> (Normal, [], g)
      | VoyageTimer voyageTo # ts \<Rightarrow>
          voyageCallback (g\<lparr>view := (view g)\<lparr>timers := ts, isAnimating := False\<rparr>\<rparr>) voyageTo
      | FeastTimer # ts \<Rightarrow>
          (Normal, [], g\<lparr>view := (view g)\<lparr>timers := ts, isAnimating := False\<rparr>\<rparr>))"

datatype command = AvatarClick avatar_ref | BoatClick | TimerFires

fun exec :: "Game \<Rightarrow> command \<Rightarrow> result" where
  "exec g (AvatarClick a) = avatarClickListener g a"
| "exec g BoatClick = boatClickListener g"
| "exec g TimerFires = timerFires g"

text \<open>
  \<open>GameController.restartGame\<close> reads the three numbers of the current game, destroys
  game and view, and starts a new game with them. The submit handler of the configuration
  form does the same with the numbers of the form, when each is an integer of at least 1,
  and nothing otherwise. Callbacks that the destroyed view had scheduled are not carried
  over: when they run they change pictures of the page or fail on a field of the destroyed
  view that is \<open>null\<close> (the one of a voyage on \<open>this.elements\<close>, before it calls the
  voyage callback); none of them reaches a game.
\<close>

definition restartGame :: "Game \<Rightarrow> Game" where
  "restartGame g = startNewGame (numMonsters g) (numHumans g) (boatCapacity g)"

definition configSubmit :: "nat \<Rightarrow> nat \<Rightarrow> nat \<Rightarrow> Game \<Rightarrow> Game" where
  "configSubmit nMonsters nHumans boatCap g =
     (if 1 \<le> nMonsters \<and> 1 \<le> nHumans \<and> 1 \<le> boatCap
      then startNewGame nMonsters nHumans boatCap else g)"

text \<open>
  The states a game goes through, from \<open>startNewGame\<close> on, under clicks, timers, restarts
  and new configurations.
\<close>

inductive reachable :: "Game \<Rightarrow> bool" where
  reachable_start: "reachable (startNewGame nMonsters nHumans boatCap)"
| reachable_step: "reachable g \<Longrightarrow> reachable (state_of (exec g c))"
| reachable_restart: "reachable g \<Longrightarrow> reachable (restartGame g)"
| reachable_config: "reachable g \<Longrightarrow> reachable (configSubmit nMonsters nHumans boatCap g)"

text \<open>
  \<open>exec\<close> gives what a click does to the current game. The boat button itself keeps one
  listener for every view ever made: \<open>bindEvents\<close> adds it and \<open>destroy\<close> does not remove
  it, but sets \<open>game\<close> and \<open>isAnimating\<close> of the view to \<open>null\<close>. The listener of a destroyed
  view therefore passes its test \<open>!this.isAnimating\<close> and throws on
  \<open>this.game.handleBoatClick()\<close>; it cannot reach the current game. A click on the button runs
  the listeners in the order in which they were added, each on its own, so the one of the
  current view runs whatever the earlier ones did.
\<close>

definition staleBoatClickListener :: "Game \<Rightarrow> result" where
  "staleBoatClickListener g = (TypeError, [], g)"

fun boatButtonClick :: "nat \<Rightarrow> Game \<Rightarrow> result" where
  "boatButtonClick 0 g = boatClickListener g"
| "boatButtonClick (Suc destroyedViews) g =
     (let r1 = staleBoatClickListener g;
          r2 = boatButtonClick destroyedViews (state_of r1)
      in (TypeError, events_of r1 @ events_of r2, state_of r2))"

text \<open>
  The states that the methods of the game themselves lead to, called in any order: the
  two click handlers and the callback of a voyage, without the gate of the view.
\<close>

inductive engine_reachable :: "Game \<Rightarrow> bool" where
  engine_start: "engine_reachable (startNewGame nMonsters nHumans boatCap)"
| engine_avatar: "engine_reachable g \<Longrightarrow> engine_reachable (state_of (handleAvatarClick g a))"
| engine_boat: "engine_reachable g \<Longrightarrow> engine_reachable (state_of (handleBoatClick g))"
| engine_timer: "engine_reachable g \<Longrightarrow> engine_reachable (state_of (timerFires g))"


section \<open>Notions used to state the properties\<close>

text \<open>
  The avatars that count for a dock, in the words of the specification: those on the
  dock and, when the boat is docked at that side, those on the boat.
\<close>

definition spec_side :: "Game \<Rightarrow> Dock \<Rightarrow> avatar_ref list" where
  "spec_side g dock =
     passengers dock @ (if dlocation dock = blocation (boat g) then passengers (boat g) else [])"

definition spec_humans :: "Game \<Rightarrow> Dock \<Rightarrow> nat" where
  "spec_humans g dock = length (filter (\<lambda>a. atype (avatars g ! a) = HUMAN) (spec_side g dock))"

definition spec_monsters :: "Game \<Rightarrow> Dock \<Rightarrow> nat" where
  "spec_monsters g dock = length (filter (\<lambda>a. atype (avatars g ! a) = MONSTER) (spec_side g dock))"

text \<open>The contents of the three containers, one after the other.\<close>

definition placement :: "Game \<Rightarrow> avatar_ref list" where
  "placement g =
     passengers (dockOrigin g) @ passengers (boat g) @ passengers (dockDestination g)"

text \<open>
  What holds of every state of a game: the three containers hold every avatar of the
  store once; the docks have room for all of them; the boat is on the river only while
  \<open>isAnimating\<close> is set; a pending voyage ends at a dock, and a pending end of the feast
  belongs to a game that is over, with the boat docked.
\<close>

fun timer_ok :: "Game \<Rightarrow> timer \<Rightarrow> bool" where
  "timer_ok g (VoyageTimer voyageTo) = (voyageTo \<noteq> RIVER)"
| "timer_ok g FeastTimer = (status g \<noteq> ONGOING \<and> blocation (boat g) \<noteq> RIVER)"

definition game_inv :: "Game \<Rightarrow> bool" where
  "game_inv g =
     (mset (placement g) = mset [0..<length (avatars g)] \<and>
      length (avatars g) = totalAvatars g \<and>
      totalAvatars g = numMonsters g + numHumans g \<and>
      maxCapacity (dockOrigin g) = totalAvatars g \<and>
      maxCapacity (dockDestination g) = totalAvatars g \<and>
      maxCapacity (boat g) = boatCapacity g \<and>
      length (passengers (boat g)) \<le> maxCapacity (boat g) \<and>
      (blocation (boat g) = RIVER \<longrightarrow> isAnimating (view g)) \<and>
      list_all (timer_ok g) (timers (view g)))"

section \<open>Example games\<close>

text \<open>Three monsters, three humans, a boat for two: \<open>monster-0\<close> boards, the boat is
  launched, the voyage ends.\<close>

definition exStart :: Game where
  "exStart = startNewGame 3 3 2"

definition exBoarded :: Game where
  "exBoarded = state_of (exec exStart (AvatarClick 0))"

definition exInFlight :: Game where
  "exInFlight = state_of (exec exBoarded BoatClick)"

definition exArrived :: Game where
  "exArrived = state_of (exec exInFlight TimerFires)"

text \<open>Two monsters, one human, a boat for three: everybody boards and crosses. This
  is the game when the voyage callback calls \<open>handleGameStatus\<close>.\<close>

definition exAllAcross :: Game where
  "exAllAcross =
     \<lparr>numMonsters = 2, numHumans = 1, totalAvatars = 3, boatCapacity = 3,
      status = ONGOING, tripCount = 1,
      avatars =
        [\<lparr>atype = MONSTER, aid = ''monster-0'', alocation = DESTINATION, mounted = ON_BOAT\<rparr>,
         \<lparr>atype = MONSTER, aid = ''monster-1'', alocation = DESTINATION, mounted = ON_BOAT\<rparr>,
         \<lparr>atype = HUMAN, aid = ''human-0'', alocation = DESTINATION, mounted = ON_BOAT\<rparr>],
      boat = \<lparr>minCapacity = 1, maxCapacity = 3, passengers = [0, 1, 2],
              blocation = DESTINATION, bstatus = DOCKED\<rparr>,
      dockOrigin = \<lparr>minCapacity = 0, maxCapacity = 3, passengers = [], dlocation = ORIGIN\<rparr>,
      dockDestination =
        \<lparr>minCapacity = 0, maxCapacity = 3, passengers = [], dlocation = DESTINATION\<rparr>,
      view = \<lparr>isAnimating = False, timers = []\<rparr>\<rparr>"

definition exAllAcrossRun :: Game where
  "exAllAcrossRun =
     state_of (exec (state_of (exec (state_of (exec (state_of (exec (state_of (exec
       (startNewGame 2 1 3) (AvatarClick 0))) (AvatarClick 1))) (AvatarClick 2)))
       BoatClick)) TimerFires)"

text \<open>Four monsters, two humans, a boat for three: \<open>monster-0\<close>, \<open>monster-1\<close> and
  \<open>human-0\<close> cross. This is the game when the voyage callback calls \<open>handleGameStatus\<close>.\<close>

definition exBothSides :: Game where
  "exBothSides =
     \<lparr>numMonsters = 4, numHumans = 2, totalAvatars = 6, boatCapacity = 3,
      status = ONGOING, tripCount = 1,
      avatars =
        [\<lparr>atype = MONSTER, aid = ''monster-0'', alocation = DESTINATION, mounted = ON_BOAT\<rparr>,
         \<lparr>atype = MONSTER, aid = ''monster-1'', alocation = DESTINATION, mounted = ON_BOAT\<rparr>,
         \<lparr>atype = MONSTER, aid = ''monster-2'', alocation = ORIGIN, mounted = ON_DOCK\<rparr>,
         \<lparr>atype = MONSTER, aid = ''monster-3'', alocation = ORIGIN, mounted = ON_DOCK\<rparr>,
         \<lparr>atype = HUMAN, aid = ''human-0'', alocation = DESTINATION, mounted = ON_BOAT\<rparr>,
         \<lparr>atype = HUMAN, aid = ''human-1'', alocation = ORIGIN, mounted = ON_DOCK\<rparr>],
      boat = \<lparr>minCapacity = 1, maxCapacity = 3, passengers = [0, 1, 4],
              blocation = DESTINATION, bstatus = DOCKED\<rparr>,
      dockOrigin =
        \<lparr>minCapacity = 0, maxCapacity = 6, passengers = [2, 3, 5], dlocation = ORIGIN\<rparr>,
      dockDestination =
        \<lparr>minCapacity = 0, maxCapacity = 6, passengers = [], dlocation = DESTINATION\<rparr>,
      view = \<lparr>isAnimating = False, timers = []\<rparr>\<rparr>"

definition exBothSidesRun :: Game where
  "exBothSidesRun =
     state_of (exec (state_of (exec (state_of (exec (state_of (exec (state_of (exec
       (startNewGame 4 2 3) (AvatarClick 0))) (AvatarClick 1))) (AvatarClick 4)))
       BoatClick)) TimerFires)"

text \<open>Three monsters, three humans, a boat for two, by the methods of the game alone:
  \<open>monster-0\<close> boards, the boat is launched, and \<open>monster-0\<close> is clicked again during the
  voyage.\<close>

definition exLost :: Game where
  "exLost =
     state_of (handleAvatarClick
       (state_of (handleBoatClick (state_of (handleAvatarClick (startNewGame 3 3 2) 0)))) 0)"

section \<open>Properties\<close>

subsection \<open>Auxiliary facts\<close>

lemmas mount_defs = getPassengers_def getPassengerCount_def isFull_def isEmpty_def
  hasPassenger_def addPassenger_def removePassenger_def

lemma assign_frame [simp]:
  "status (assign g r d) = status g"
  "boat (assign g r d) = boat g"
  "avatars (assign g r d) = avatars g"
  "view (assign g r d) = view g"
  "totalAvatars (assign g r d) = totalAvatars g"
  "numMonsters (assign g r d) = numMonsters g"
  "numHumans (assign g r d) = numHumans g"
  "boatCapacity (assign g r d) = boatCapacity g"
  "tripCount (assign g r d) = tripCount g"
  "deref (assign g r d) r = d"
  by (cases r; simp)+

lemma deref_assign_other [simp]: "r' \<noteq> r \<Longrightarrow> deref (assign g r d) r' = deref g r'"
  by (cases r; cases r'; simp)

lemma deref_frame [simp]:
  "deref (g\<lparr>boat := b\<rparr>) r = deref g r"
  "deref (g\<lparr>avatars := avs\<rparr>) r = deref g r"
  "deref (g\<lparr>view := v\<rparr>) r = deref g r"
  "deref (g\<lparr>status := s\<rparr>) r = deref g r"
  "deref (g\<lparr>tripCount := n\<rparr>) r = deref g r"
  by (cases r; simp)+

lemma setLocation_length [simp]: "length (setLocation avs a loc) = length avs"
  by (simp add: setLocation_def)

lemma setLocationAll_length [simp]: "length (setLocationAll as loc avs) = length avs"
  by (induction as arbitrary: avs) simp_all

lemma setLocationAll_atype [simp]: "atype (setLocationAll as loc avs ! b) = atype (avs ! b)"
proof (induction as arbitrary: avs)
  case Nil
  show ?case by simp
next
  case (Cons a as)
  have "atype (setLocation avs a loc ! b) = atype (avs ! b)"
    by (cases "a < length avs"; cases "a = b") (simp_all add: setLocation_def list_update_beyond)
  with Cons show ?case by simp
qed

lemma setLocationAll_mounted [simp]: "mounted (setLocationAll as loc avs ! b) = mounted (avs ! b)"
proof (induction as arbitrary: avs)
  case Nil
  show ?case by simp
next
  case (Cons a as)
  have "mounted (setLocation avs a loc ! b) = mounted (avs ! b)"
    by (cases "a < length avs"; cases "a = b") (simp_all add: setLocation_def list_update_beyond)
  with Cons show ?case by simp
qed

lemma setLocationAll_keeps:
  "b < length avs \<Longrightarrow> alocation (avs ! b) = loc \<Longrightarrow> alocation (setLocationAll as loc avs ! b) = loc"
proof (induction as arbitrary: avs)
  case Nil
  then show ?case by simp
next
  case (Cons a as)
  have "alocation (setLocation avs a loc ! b) = loc"
    using Cons.prems by (cases "a = b") (simp_all add: setLocation_def)
  with Cons show ?case by simp
qed

lemma setLocationAll_sets:
  "b \<in> set as \<Longrightarrow> b < length avs \<Longrightarrow> alocation (setLocationAll as loc avs ! b) = loc"
proof (induction as arbitrary: avs)
  case Nil
  then show ?case by simp
next
  case (Cons a as)
  show ?case
  proof (cases "a = b")
    case True
    with Cons.prems show ?thesis
      by (simp add: setLocationAll_keeps setLocation_def)
  next
    case False
    with Cons show ?thesis by simp
  qed
qed

lemma countAvatars_eq:
  "countAvatars avs as (m, h) =
     (m + length (filter (\<lambda>a. atype (avs ! a) = MONSTER) as),
      h + length (filter (\<lambda>a. atype (avs ! a) = HUMAN) as))"
  by (induction as arbitrary: m h) auto

lemma listAvatars_eq:
  "listAvatars avs as (p, q) =
     (p @ filter (\<lambda>a. atype (avs ! a) = MONSTER) as,
      q @ filter (\<lambda>a. atype (avs ! a) = HUMAN) as)"
  by (induction as arbitrary: p q) auto

lemma isBalanced_iff:
  "isBalanced g d \<longleftrightarrow> spec_humans g d = 0 \<or> spec_humans g d \<ge> spec_monsters g d"
  by (simp add: isBalanced_def spec_humans_def spec_monsters_def spec_side_def
      getPassengers_def countAvatars_eq Let_def)

lemma feastLists_eq:
  "feastLists g d =
     (filter (\<lambda>a. atype (avatars g ! a) = MONSTER) (spec_side g d),
      filter (\<lambda>a. atype (avatars g ! a) = HUMAN) (spec_side g d))"
  by (simp add: feastLists_def spec_side_def getPassengers_def listAvatars_eq Let_def)

lemma spec_side_status [simp]: "spec_side (g\<lparr>status := s\<rparr>) d = spec_side g d"
  by (simp add: spec_side_def)

lemma handleFeast_unbalanced:
  assumes "\<not> isBalanced g d"
  shows "handleFeast (g\<lparr>status := LOST\<rparr>) d =
     (Normal,
      [PlayFeastAnimation (filter (\<lambda>a. atype (avatars g ! a) = MONSTER) (spec_side g d))
         (filter (\<lambda>a. atype (avatars g ! a) = HUMAN) (spec_side g d))],
      g\<lparr>status := LOST,
        view := (view g)\<lparr>isAnimating := True, timers := timers (view g) @ [FeastTimer]\<rparr>\<rparr>)"
proof -
  from assms have "spec_humans g d \<noteq> 0"
    by (simp add: isBalanced_iff)
  then have "filter (\<lambda>a. atype (avatars g ! a) = HUMAN) (spec_side g d) \<noteq> []"
    by (simp add: spec_humans_def)
  then show ?thesis
    by (simp add: handleFeast_def feastLists_eq playFeastAnimation_def Let_def)
qed

lemma handleFeast_frame:
  "status (state_of (handleFeast g d)) = status g"
  "boat (state_of (handleFeast g d)) = boat g"
  "dockOrigin (state_of (handleFeast g d)) = dockOrigin g"
  "dockDestination (state_of (handleFeast g d)) = dockDestination g"
  "avatars (state_of (handleFeast g d)) = avatars g"
  "totalAvatars (state_of (handleFeast g d)) = totalAvatars g"
  "numMonsters (state_of (handleFeast g d)) = numMonsters g"
  "numHumans (state_of (handleFeast g d)) = numHumans g"
  "boatCapacity (state_of (handleFeast g d)) = boatCapacity g"
  "tripCount (state_of (handleFeast g d)) = tripCount g"
  by (simp_all add: handleFeast_def split: prod.splits)

lemma handleGameStatus_frame:
  "boat (state_of (handleGameStatus g)) = boat g"
  "dockOrigin (state_of (handleGameStatus g)) = dockOrigin g"
  "dockDestination (state_of (handleGameStatus g)) = dockDestination g"
  "avatars (state_of (handleGameStatus g)) = avatars g"
  "totalAvatars (state_of (handleGameStatus g)) = totalAvatars g"
  "numMonsters (state_of (handleGameStatus g)) = numMonsters g"
  "numHumans (state_of (handleGameStatus g)) = numHumans g"
  "boatCapacity (state_of (handleGameStatus g)) = boatCapacity g"
  "tripCount (state_of (handleGameStatus g)) = tripCount g"
  by (simp_all add: handleGameStatus_def handleFeast_frame)

lemma handleAvatarClick_status: "status (state_of (handleAvatarClick g a)) = status g"
  by (simp add: handleAvatarClick_def Let_def split: option.splits)

lemma handleBoatClick_status: "status (state_of (handleBoatClick g)) = status g"
  by (simp add: handleBoatClick_def Let_def)

lemma exAllAcross_run: "exAllAcrossRun = state_of (handleGameStatus exAllAcross)"
  by code_simp

lemma exBothSides_run: "exBothSidesRun = state_of (handleGameStatus exBothSides)"
  by code_simp

lemma reachable_exAllAcrossRun: "reachable exAllAcrossRun"
  unfolding exAllAcrossRun_def by (intro reachable_start reachable_step)

lemma reachable_exArrived: "reachable exArrived"
  unfolding exArrived_def exInFlight_def exBoarded_def exStart_def by (intro reachable_start reachable_step)

lemma reachable_exInFlight: "reachable exInFlight"
  unfolding exInFlight_def exBoarded_def exStart_def by (intro reachable_start reachable_step)

subsection \<open>Outcome evaluation\<close>

text \<open>
  C1. On an ongoing game \<open>handleGameStatus\<close> sets the status to won exactly when the
  origin dock is empty, the boat is at the destination and the passengers of the
  destination dock and of the boat together are at least \<open>totalAvatars\<close>; it announces the
  win exactly then. On a game that is not ongoing it does nothing, and neither
  \<open>handleAvatarClick\<close> nor \<open>handleBoatClick\<close> changes the status: a win is declared nowhere
  else.
\<close>

theorem win_iff:
  "(status g = ONGOING \<longrightarrow>
      (status (state_of (handleGameStatus g)) = WON \<longleftrightarrow>
         passengers (dockOrigin g) = [] \<and> blocation (boat g) = DESTINATION \<and>
         length (passengers (dockDestination g)) + length (passengers (boat g))
           \<ge> totalAvatars g)) \<and>
   (status g = ONGOING \<longrightarrow>
      (PlayWinAnimation \<in> set (events_of (handleGameStatus g)) \<longleftrightarrow>
         status (state_of (handleGameStatus g)) = WON)) \<and>
   (status g \<noteq> ONGOING \<longrightarrow> handleGameStatus g = (Normal, [], g)) \<and>
   status (state_of (handleAvatarClick g a)) = status g \<and>
   status (state_of (handleBoatClick g)) = status g"
proof (intro conjI impI)
  assume "status g = ONGOING"
  then show "status (state_of (handleGameStatus g)) = WON \<longleftrightarrow>
         passengers (dockOrigin g) = [] \<and> blocation (boat g) = DESTINATION \<and>
         length (passengers (dockDestination g)) + length (passengers (boat g))
           \<ge> totalAvatars g"
    by (simp add: handleGameStatus_def winCondition_def mount_defs handleFeast_frame)
next
  assume "status g = ONGOING"
  then show "PlayWinAnimation \<in> set (events_of (handleGameStatus g)) \<longleftrightarrow>
         status (state_of (handleGameStatus g)) = WON"
    by (simp add: handleGameStatus_def handleFeast_frame handleFeast_def split: prod.splits)
next
  assume "status g \<noteq> ONGOING"
  then show "handleGameStatus g = (Normal, [], g)"
    by (simp add: handleGameStatus_def)
next
  show "status (state_of (handleAvatarClick g a)) = status g"
    by (rule handleAvatarClick_status)
next
  show "status (state_of (handleBoatClick g)) = status g"
    by (rule handleBoatClick_status)
qed

theorem win_iff_witness:
  "status exAllAcross = ONGOING \<and> status (state_of (handleGameStatus exAllAcross)) = WON \<and>
   handleGameStatus (exAllAcross\<lparr>status := WON\<rparr>) = (Normal, [], exAllAcross\<lparr>status := WON\<rparr>)"
proof -
  have h1: "status exAllAcross = ONGOING"
    by (simp add: exAllAcross_def)
  have h2: "passengers (dockOrigin exAllAcross) = [] \<and>
      blocation (boat exAllAcross) = DESTINATION \<and>
      length (passengers (dockDestination exAllAcross)) + length (passengers (boat exAllAcross))
        \<ge> totalAvatars exAllAcross"
    by (simp add: exAllAcross_def)
  have h3: "status (exAllAcross\<lparr>status := WON\<rparr>) \<noteq> ONGOING"
    by simp
  from win_iff [of exAllAcross 0] win_iff [of "exAllAcross\<lparr>status := WON\<rparr>" 0] h1 h2 h3
  show ?thesis by blast
qed

text \<open>
  C2, as stated: a side is unbalanced, and the evaluation declares a loss tagging its
  dock, exactly when it has a human and more monsters than humans. With two monsters, one
  human and a boat for three, everybody crosses at once: the destination side then has one
  human and two monsters, and the evaluation declares a win.
\<close>

theorem loss_iff_unbalanced_counterexample:
  "status exAllAcross = ONGOING \<and>
   spec_humans exAllAcross (dockDestination exAllAcross) = 1 \<and>
   spec_monsters exAllAcross (dockDestination exAllAcross) = 2 \<and>
   \<not> isBalanced exAllAcross (dockDestination exAllAcross) \<and>
   handleGameStatus exAllAcross = (Normal, [PlayWinAnimation], exAllAcross\<lparr>status := WON\<rparr>)"
  by code_simp

text \<open>
  C2, amended. The balance check counts the humans and monsters on the dock plus, when the
  boat is docked at that side, those on the boat; the side is unbalanced exactly when it
  has a human and more monsters than humans, and balanced with no human or with at least
  as many humans as monsters. On an ongoing game the evaluation first tests the win
  condition; only when it fails, a loss is declared: for the origin dock when the origin
  side is unbalanced, otherwise for the destination dock when the destination side is
  unbalanced, and nothing happens when both are balanced.
\<close>

theorem balance_rule:
  "(\<not> isBalanced g d \<longleftrightarrow> spec_humans g d > 0 \<and> spec_monsters g d > spec_humans g d) \<and>
   (spec_humans g d = 0 \<longrightarrow> isBalanced g d) \<and>
   (spec_humans g d \<ge> spec_monsters g d \<longrightarrow> isBalanced g d) \<and>
   (status g = ONGOING \<longrightarrow>
      (winCondition g \<longrightarrow> status (state_of (handleGameStatus g)) = WON) \<and>
      (\<not> winCondition g \<and> \<not> isBalanced g (dockOrigin g) \<longrightarrow>
         handleGameStatus g = handleFeast (g\<lparr>status := LOST\<rparr>) (dockOrigin g) \<and>
         status (state_of (handleGameStatus g)) = LOST) \<and>
      (\<not> winCondition g \<and> isBalanced g (dockOrigin g) \<and> \<not> isBalanced g (dockDestination g) \<longrightarrow>
         handleGameStatus g = handleFeast (g\<lparr>status := LOST\<rparr>) (dockDestination g) \<and>
         status (state_of (handleGameStatus g)) = LOST) \<and>
      (\<not> winCondition g \<and> isBalanced g (dockOrigin g) \<and> isBalanced g (dockDestination g) \<longrightarrow>
         handleGameStatus g = (Normal, [], g)))"
proof -
  have a: "\<not> isBalanced g d \<longleftrightarrow> spec_humans g d > 0 \<and> spec_monsters g d > spec_humans g d"
    by (auto simp: isBalanced_iff)
  have b: "status g = ONGOING \<longrightarrow>
      (winCondition g \<longrightarrow> status (state_of (handleGameStatus g)) = WON) \<and>
      (\<not> winCondition g \<and> \<not> isBalanced g (dockOrigin g) \<longrightarrow>
         handleGameStatus g = handleFeast (g\<lparr>status := LOST\<rparr>) (dockOrigin g) \<and>
         status (state_of (handleGameStatus g)) = LOST) \<and>
      (\<not> winCondition g \<and> isBalanced g (dockOrigin g) \<and> \<not> isBalanced g (dockDestination g) \<longrightarrow>
         handleGameStatus g = handleFeast (g\<lparr>status := LOST\<rparr>) (dockDestination g) \<and>
         status (state_of (handleGameStatus g)) = LOST) \<and>
      (\<not> winCondition g \<and> isBalanced g (dockOrigin g) \<and> isBalanced g (dockDestination g) \<longrightarrow>
         handleGameStatus g = (Normal, [], g))"
    by (simp add: handleGameStatus_def handleFeast_frame)
  have c: "spec_humans g d = 0 \<longrightarrow> isBalanced g d"
    by (simp add: isBalanced_iff)
  have d: "spec_humans g d \<ge> spec_monsters g d \<longrightarrow> isBalanced g d"
    by (simp add: isBalanced_iff)
  from a b c d show ?thesis
    by blast
qed

theorem balance_rule_witness:
  "status exBothSides = ONGOING \<and>
   \<not> isBalanced exBothSides (dockOrigin exBothSides) \<and>
   status (state_of (handleGameStatus exBothSides)) = LOST \<and>
   isBalanced exStart (dockDestination exStart)"
proof -
  have h1: "status exBothSides = ONGOING"
    by (simp add: exBothSides_def)
  have h2: "\<not> winCondition exBothSides"
    by code_simp
  have h3: "0 < spec_humans exBothSides (dockOrigin exBothSides) \<and>
      spec_humans exBothSides (dockOrigin exBothSides)
        < spec_monsters exBothSides (dockOrigin exBothSides)"
    by code_simp
  have h4: "spec_humans exStart (dockDestination exStart) = 0"
    by code_simp
  from balance_rule [of exBothSides "dockOrigin exBothSides"]
    balance_rule [of exStart "dockDestination exStart"] h1 h2 h3 h4
  show ?thesis by blast
qed

text \<open>
  C10. When the evaluation finds both sides unbalanced, the loss goes to the origin dock:
  the predators and the prey handed to the feast animation are the monsters and the humans
  of the origin dock, followed by those of the boat when the boat is at the origin, and no
  avatar of the destination dock.
\<close>

theorem loss_origin_first:
  assumes "status g = ONGOING"
    and "dlocation (dockOrigin g) = ORIGIN"
    and "\<not> isBalanced g (dockOrigin g)"
    and "\<not> isBalanced g (dockDestination g)"
  shows "handleGameStatus g =
     (Normal,
      [PlayFeastAnimation
         (filter (\<lambda>a. atype (avatars g ! a) = MONSTER)
            (passengers (dockOrigin g) @
             (if blocation (boat g) = ORIGIN then passengers (boat g) else [])))
         (filter (\<lambda>a. atype (avatars g ! a) = HUMAN)
            (passengers (dockOrigin g) @
             (if blocation (boat g) = ORIGIN then passengers (boat g) else [])))],
      g\<lparr>status := LOST,
        view := (view g)\<lparr>isAnimating := True, timers := timers (view g) @ [FeastTimer]\<rparr>\<rparr>)"
proof -
  have side: "spec_side g (dockOrigin g) =
      passengers (dockOrigin g) @ (if blocation (boat g) = ORIGIN then passengers (boat g) else [])"
    using assms(2) by (auto simp: spec_side_def)
  have "\<not> winCondition g"
  proof
    assume w: "winCondition g"
    then have "spec_side g (dockOrigin g) = []"
      using assms(2) by (simp add: winCondition_def spec_side_def isEmpty_def)
    then have "isBalanced g (dockOrigin g)"
      by (simp add: isBalanced_iff spec_humans_def)
    with assms(3) show False by simp
  qed
  with assms(1,3) have "handleGameStatus g = handleFeast (g\<lparr>status := LOST\<rparr>) (dockOrigin g)"
    by (simp add: handleGameStatus_def)
  with assms(3) show ?thesis
    by (simp add: handleFeast_unbalanced side)
qed

theorem loss_origin_first_witness:
  "\<not> isBalanced exBothSides (dockOrigin exBothSides) \<and>
   \<not> isBalanced exBothSides (dockDestination exBothSides) \<and>
   events_of (handleGameStatus exBothSides) = [PlayFeastAnimation [2, 3] [5]]"
proof -
  have h1: "status exBothSides = ONGOING"
    by (simp add: exBothSides_def)
  have h2: "dlocation (dockOrigin exBothSides) = ORIGIN"
    by (simp add: exBothSides_def)
  have h3: "\<not> isBalanced exBothSides (dockOrigin exBothSides)"
    by code_simp
  have h4: "\<not> isBalanced exBothSides (dockDestination exBothSides)"
    by code_simp
  have "events_of (handleGameStatus exBothSides) =
      [PlayFeastAnimation
         (filter (\<lambda>a. atype (avatars exBothSides ! a) = MONSTER)
            (passengers (dockOrigin exBothSides) @
             (if blocation (boat exBothSides) = ORIGIN then passengers (boat exBothSides) else [])))
         (filter (\<lambda>a. atype (avatars exBothSides ! a) = HUMAN)
            (passengers (dockOrigin exBothSides) @
             (if blocation (boat exBothSides) = ORIGIN then passengers (boat exBothSides) else [])))]"
    using loss_origin_first [OF h1 h2 h3 h4] by simp
  also have "\<dots> = [PlayFeastAnimation [2, 3] [5]]"
    by (simp add: exBothSides_def)
  finally show ?thesis
    using h3 h4 by simp
qed

subsection \<open>Launch\<close>

text \<open>
  C3. On an ongoing game \<open>handleBoatClick\<close> starts the voyage exactly when the boat holds at
  least \<open>minCapacity\<close> passengers. Then the boat is sailing and on the river, so is every
  passenger, the trip counter is one more, and the scheduled end of the voyage goes to the
  destination from the origin and to the origin from the destination. Otherwise, and so
  with an empty boat, the game is unchanged (still ongoing) and a message is shown.
\<close>

theorem launch:
  assumes "status g = ONGOING"
  shows "(events_of (handleBoatClick g) = [PlayVoyageAnimation] \<longleftrightarrow>
            length (passengers (boat g)) \<ge> minCapacity (boat g)) \<and>
         (length (passengers (boat g)) \<ge> minCapacity (boat g) \<longrightarrow>
            completion_of (handleBoatClick g) = Normal \<and>
            bstatus (boat (state_of (handleBoatClick g))) = SAILING \<and>
            blocation (boat (state_of (handleBoatClick g))) = RIVER \<and>
            passengers (boat (state_of (handleBoatClick g))) = passengers (boat g) \<and>
            (\<forall>a \<in> set (passengers (boat g)). a < length (avatars g) \<longrightarrow>
               alocation (avatars (state_of (handleBoatClick g)) ! a) = RIVER) \<and>
            tripCount (state_of (handleBoatClick g)) = tripCount g + 1 \<and>
            isAnimating (view (state_of (handleBoatClick g))) \<and>
            timers (view (state_of (handleBoatClick g))) =
              timers (view g) @ [VoyageTimer (getDestinationLocation (boat g))] \<and>
            (blocation (boat g) = ORIGIN \<longrightarrow> getDestinationLocation (boat g) = DESTINATION) \<and>
            (blocation (boat g) = DESTINATION \<longrightarrow> getDestinationLocation (boat g) = ORIGIN) \<and>
            status (state_of (handleBoatClick g)) = ONGOING) \<and>
         (length (passengers (boat g)) < minCapacity (boat g) \<longrightarrow>
            handleBoatClick g =
              (Normal, [ShowMessage ''Someone needs to row the boat!'' ''info''], g)) \<and>
         (passengers (boat g) = [] \<and> 0 < minCapacity (boat g) \<longrightarrow>
            handleBoatClick g =
              (Normal, [ShowMessage ''Someone needs to row the boat!'' ''info''], g))"
  using assms
  by (auto simp: handleBoatClick_def canSail_def getPassengers_def playVoyageAnimation_def
      getDestinationLocation_def setLocationAll_sets Let_def)

theorem launch_witness:
  "status exBoarded = ONGOING \<and>
   tripCount (state_of (handleBoatClick exBoarded)) = tripCount exBoarded + 1 \<and>
   blocation (boat (state_of (handleBoatClick exBoarded))) = RIVER \<and>
   timers (view (state_of (handleBoatClick exBoarded))) = [VoyageTimer DESTINATION] \<and>
   handleBoatClick exStart =
     (Normal, [ShowMessage ''Someone needs to row the boat!'' ''info''], exStart)"
proof -
  have h1: "status exBoarded = ONGOING"
    by code_simp
  have h2: "minCapacity (boat exBoarded) \<le> length (passengers (boat exBoarded))"
    by code_simp
  have h3: "blocation (boat exBoarded) = ORIGIN \<and> timers (view exBoarded) = []"
    by code_simp
  have h4: "status exStart = ONGOING"
    by code_simp
  have h5: "passengers (boat exStart) = [] \<and> 0 < minCapacity (boat exStart)"
    by code_simp
  from launch [OF h1] launch [OF h4] h1 h2 h3 h5 show ?thesis
    by simp
qed

subsection \<open>Boarding and disembarking\<close>



text \<open>
  C7, as stated: for every avatar aboard the boat the call moves it to the dock. In the
  game above that was won with everybody still aboard, a click on \<open>monster-0\<close> changes
  nothing: \<open>handleAvatarClick\<close> returns at once when the game is not ongoing.
\<close>

theorem disembark_terminal_counterexample:
  "reachable exAllAcrossRun \<and> status exAllAcrossRun = WON \<and>
   blocation (boat exAllAcrossRun) = DESTINATION \<and>
   0 \<in> set (passengers (boat exAllAcrossRun)) \<and>
   mounted (avatars exAllAcrossRun ! 0) = ON_BOAT \<and>
   handleAvatarClick exAllAcrossRun 0 = (Normal, [], exAllAcrossRun)"
proof -
  have "status exAllAcrossRun = WON \<and>
      blocation (boat exAllAcrossRun) = DESTINATION \<and>
      0 \<in> set (passengers (boat exAllAcrossRun)) \<and>
      mounted (avatars exAllAcrossRun ! 0) = ON_BOAT \<and>
      handleAvatarClick exAllAcrossRun 0 = (Normal, [], exAllAcrossRun)"
    by code_simp
  with reachable_exAllAcrossRun show ?thesis
    by simp
qed

text \<open>
  C7, amended. A click on an avatar whose mount state is on-boat. When the game is ongoing,
  the avatar is aboard, the boat is at a dock and that dock has room (it has, in every
  state of a game), the avatar leaves the boat, is appended to that dock and its mount
  state becomes on-dock; the other dock is untouched. When the avatar is not aboard, or
  the game is not ongoing, the call changes nothing.
\<close>

theorem disembark:
  assumes "a < length (avatars g)"
    and "mounted (avatars g ! a) = ON_BOAT"
  shows "(status g = ONGOING \<and> a \<in> set (passengers (boat g)) \<and>
          getDockByLocation (blocation (boat g)) = Some r \<and>
          length (passengers (deref g r)) < maxCapacity (deref g r) \<longrightarrow>
            completion_of (handleAvatarClick g a) = Normal \<and>
            events_of (handleAvatarClick g a) = [Render] \<and>
            passengers (boat (state_of (handleAvatarClick g a))) =
              remove1 a (passengers (boat g)) \<and>
            passengers (deref (state_of (handleAvatarClick g a)) r) =
              passengers (deref g r) @ [a] \<and>
            mounted (avatars (state_of (handleAvatarClick g a)) ! a) = ON_DOCK \<and>
            (\<forall>r'. r' \<noteq> r \<longrightarrow> deref (state_of (handleAvatarClick g a)) r' = deref g r')) \<and>
         (a \<notin> set (passengers (boat g)) \<longrightarrow> handleAvatarClick g a = (Normal, [], g)) \<and>
         (status g \<noteq> ONGOING \<longrightarrow> handleAvatarClick g a = (Normal, [], g))"
  using assms
  by (auto simp: handleAvatarClick_def mount_defs setMounted_def Let_def)

theorem disembark_witness:
  "passengers (boat (state_of (handleAvatarClick exArrived 0))) = [] \<and>
   passengers (dockDestination (state_of (handleAvatarClick exArrived 0))) = [0] \<and>
   mounted (avatars (state_of (handleAvatarClick exArrived 0)) ! 0) = ON_DOCK"
proof -
  have h1: "0 < length (avatars exArrived)"
    by code_simp
  have h2: "mounted (avatars exArrived ! 0) = ON_BOAT"
    by code_simp
  have h3: "status exArrived = ONGOING \<and> 0 \<in> set (passengers (boat exArrived)) \<and>
      getDockByLocation (blocation (boat exArrived)) = Some DockDestination \<and>
      length (passengers (deref exArrived DockDestination))
        < maxCapacity (deref exArrived DockDestination)"
    by code_simp
  have h4: "passengers (boat exArrived) = [0] \<and>
      passengers (deref exArrived DockDestination) = []"
    by code_simp
  from disembark [OF h1 h2, of DockDestination] h3 h4 show ?thesis
    by simp
qed

subsection \<open>The invariant\<close>

lemma createAvatars_result:
  assumes "length (passengers d) + length is \<le> maxCapacity d"
  shows "length (fst (createAvatars ty p is (avs, d))) = length avs + length is \<and>
         passengers (snd (createAvatars ty p is (avs, d))) =
           passengers d @ [length avs ..< length avs + length is] \<and>
         maxCapacity (snd (createAvatars ty p is (avs, d))) = maxCapacity d"
  using assms
proof (induction "is" arbitrary: avs d)
  case Nil
  then show ?case by simp
next
  case (Cons i "is")
  let ?d = "snd (addPassenger d (length avs))"
  let ?avs = "avs @ [new_Avatar ty (p @ string_of_nat i)]"
  from Cons.prems have d: "passengers ?d = passengers d @ [length avs]" "maxCapacity ?d = maxCapacity d"
    by (simp_all add: addPassenger_def isFull_def)
  with Cons.prems have "length (passengers ?d) + length is \<le> maxCapacity ?d"
    by simp
  from Cons.IH [OF this, of ?avs] d
  have ih: "length (fst (createAvatars ty p is (?avs, ?d))) = Suc (length avs) + length is \<and>
      passengers (snd (createAvatars ty p is (?avs, ?d))) =
        (passengers d @ [length avs]) @ [Suc (length avs) ..< Suc (length avs) + length is] \<and>
      maxCapacity (snd (createAvatars ty p is (?avs, ?d))) = maxCapacity d"
    by simp
  have upt: "[length avs ..< length avs + length (i # is)] =
      length avs # [Suc (length avs) ..< Suc (length avs) + length is]"
    by (subst upt_conv_Cons) simp_all
  from ih show ?case
    unfolding createAvatars.simps upt by simp
qed

lemma timer_ok_cong:
  "status g' = status g \<Longrightarrow> blocation (boat g') = blocation (boat g) \<Longrightarrow>
   timer_ok g' t = timer_ok g t"
  by (cases t) simp_all

lemma timers_ok_cong:
  "status g' = status g \<Longrightarrow> blocation (boat g') = blocation (boat g) \<Longrightarrow>
   list_all (timer_ok g') ts = list_all (timer_ok g) ts"
  by (simp add: list_all_iff timer_ok_cong [of g' g])

lemma startNewGame_eq:
  assumes "createAvatars MONSTER ''monster-'' [0..<nMonsters]
             ([], new_Dock ORIGIN (nMonsters + nHumans)) = (avs1, d1)"
    and "createAvatars HUMAN ''human-'' [0..<nHumans] (avs1, d1) = (avs2, d2)"
  shows "startNewGame nMonsters nHumans boatCap =
     \<lparr>numMonsters = nMonsters, numHumans = nHumans, totalAvatars = nMonsters + nHumans,
      boatCapacity = boatCap, status = ONGOING, tripCount = 0,
      avatars = avs2, boat = new_Boat boatCap 1,
      dockOrigin = d2, dockDestination = new_Dock DESTINATION (nMonsters + nHumans),
      view = new_ViewController\<rparr>"
  using assms by (simp add: startNewGame_def Let_def)

lemma startNewGame_inv: "game_inv (startNewGame nMonsters nHumans boatCap)"
proof -
  obtain avs1 d1 where s1: "createAvatars MONSTER ''monster-'' [0..<nMonsters]
      ([], new_Dock ORIGIN (nMonsters + nHumans)) = (avs1, d1)"
    by (cases "createAvatars MONSTER ''monster-'' [0..<nMonsters]
      ([], new_Dock ORIGIN (nMonsters + nHumans))") simp
  obtain avs2 d2 where s2: "createAvatars HUMAN ''human-'' [0..<nHumans] (avs1, d1) = (avs2, d2)"
    by (cases "createAvatars HUMAN ''human-'' [0..<nHumans] (avs1, d1)") simp
  have "length (passengers (new_Dock ORIGIN (nMonsters + nHumans))) + length [0..<nMonsters]
      \<le> maxCapacity (new_Dock ORIGIN (nMonsters + nHumans))"
    by (simp add: new_Dock_def)
  from createAvatars_result [OF this, of MONSTER "''monster-''" "[]"]
  have 1: "length avs1 = nMonsters" "passengers d1 = [0..<nMonsters]"
    "maxCapacity d1 = nMonsters + nHumans"
    unfolding s1 by (simp_all add: new_Dock_def)
  then have "length (passengers d1) + length [0..<nHumans] \<le> maxCapacity d1"
    by simp
  from createAvatars_result [OF this, of HUMAN "''human-''" avs1]
  have 2: "length avs2 = nMonsters + nHumans"
    "passengers d2 = [0..<nMonsters] @ [nMonsters..<nMonsters + nHumans]"
    "maxCapacity d2 = nMonsters + nHumans"
    unfolding s2 by (simp_all add: 1)
  have "[0..<nMonsters + nHumans] = [0..<nMonsters] @ [nMonsters..<nMonsters + nHumans]"
    by (rule upt_add_eq_append) simp
  with 2(2) have 3: "passengers d2 = [0..<nMonsters + nHumans]"
    by (simp only:)
  let ?g = "startNewGame nMonsters nHumans boatCap"
  have g: "avatars ?g = avs2" "dockOrigin ?g = d2" "boat ?g = new_Boat boatCap 1"
    "dockDestination ?g = new_Dock DESTINATION (nMonsters + nHumans)"
    "view ?g = new_ViewController" "totalAvatars ?g = nMonsters + nHumans"
    "numMonsters ?g = nMonsters" "numHumans ?g = nHumans" "boatCapacity ?g = boatCap"
    by (simp_all add: startNewGame_eq [OF s1 s2])
  have p: "placement ?g = [0..<nMonsters + nHumans]"
    by (simp add: placement_def g 3 new_Boat_def new_Dock_def)
  show ?thesis
    unfolding game_inv_def
  proof (intro conjI)
    show "mset (placement ?g) = mset [0..<length (avatars ?g)]"
      by (simp only: p g 2)
    show "length (avatars ?g) = totalAvatars ?g"
      by (simp only: g 2)
    show "totalAvatars ?g = numMonsters ?g + numHumans ?g"
      by (simp only: g)
    show "maxCapacity (dockOrigin ?g) = totalAvatars ?g"
      by (simp only: g 2)
    show "maxCapacity (dockDestination ?g) = totalAvatars ?g"
      by (simp add: g new_Dock_def)
    show "maxCapacity (boat ?g) = boatCapacity ?g"
      by (simp add: g new_Boat_def)
    show "length (passengers (boat ?g)) \<le> maxCapacity (boat ?g)"
      by (simp add: g new_Boat_def)
    show "blocation (boat ?g) = RIVER \<longrightarrow> isAnimating (view ?g)"
      by (simp add: g new_Boat_def)
    show "list_all (timer_ok ?g) (timers (view ?g))"
      by (simp add: g new_ViewController_def)
  qed
qed

lemma timers_ok_ongoing:
  "status g = ONGOING \<Longrightarrow> list_all (timer_ok g) ts \<Longrightarrow> list_all (timer_ok g') ts"
proof (induction ts)
  case Nil
  show ?case by simp
next
  case (Cons t ts)
  then show ?case by (cases t) simp_all
qed

lemma inv_lengths:
  assumes "game_inv g"
  shows "length (passengers (dockOrigin g)) + length (passengers (boat g)) +
         length (passengers (dockDestination g)) = totalAvatars g"
proof -
  from assms have "mset (placement g) = mset [0..<totalAvatars g]"
    by (simp add: game_inv_def)
  then have "length (placement g) = length [0..<totalAvatars g]"
    by (rule mset_eq_length)
  then show ?thesis
    by (simp add: placement_def)
qed

lemma inv_docked:
  assumes "game_inv g" and "\<not> isAnimating (view g)"
  shows "\<exists>r. getDockByLocation (blocation (boat g)) = Some r"
  using assms by (cases "blocation (boat g)") (simp_all add: game_inv_def getDockByLocation_def)

lemma game_inv_same_timers:
  assumes "game_inv g"
    and "mset (placement g') = mset (placement g)"
    and "length (avatars g') = length (avatars g)"
    and "totalAvatars g' = totalAvatars g"
    and "numMonsters g' = numMonsters g"
    and "numHumans g' = numHumans g"
    and "boatCapacity g' = boatCapacity g"
    and "maxCapacity (dockOrigin g') = maxCapacity (dockOrigin g)"
    and "maxCapacity (dockDestination g') = maxCapacity (dockDestination g)"
    and "maxCapacity (boat g') = maxCapacity (boat g)"
    and "length (passengers (boat g')) \<le> maxCapacity (boat g')"
    and "status g' = status g"
    and "blocation (boat g') = blocation (boat g)"
    and "view g' = view g"
  shows "game_inv g'"
proof -
  from assms(12,13) have "list_all (timer_ok g') (timers (view g)) =
      list_all (timer_ok g) (timers (view g))"
    by (rule timers_ok_cong)
  with assms show ?thesis
    by (simp add: game_inv_def)
qed

lemma setMounted_length [simp]: "length (setMounted avs a m) = length avs"
  by (simp add: setMounted_def)

lemma handleAvatarClick_inv:
  assumes inv: "game_inv g" and idle: "\<not> isAnimating (view g)"
  shows "game_inv (state_of (handleAvatarClick g a))"
proof -
  from inv_docked [OF assms] obtain r where r: "getDockByLocation (blocation (boat g)) = Some r"
    by (rule exE)
  from inv have cap: "length (passengers (boat g)) \<le> maxCapacity (boat g)"
    "maxCapacity (dockOrigin g) = totalAvatars g" "maxCapacity (dockDestination g) = totalAvatars g"
    by (simp_all add: game_inv_def)
  note len = inv_lengths [OF inv]
  show ?thesis
  proof (cases "status g = ONGOING")
    case False
    then show ?thesis
      using inv by (simp add: handleAvatarClick_def)
  next
    case ongoing: True
    show ?thesis
    proof (cases "mounted (avatars g ! a)")
      case ON_DOCK
      show ?thesis
      proof (cases "a \<in> set (passengers (deref g r)) \<and> \<not> isFull (boat g)")
        case False
        then have "state_of (handleAvatarClick g a) = g"
          using ongoing ON_DOCK r by (auto simp: handleAvatarClick_def hasPassenger_def)
        with inv show ?thesis by simp
      next
        case True
        then have eq: "state_of (handleAvatarClick g a) =
            (assign g r ((deref g r)\<lparr>passengers := remove1 a (passengers (deref g r))\<rparr>))
              \<lparr>boat := (boat g)\<lparr>passengers := passengers (boat g) @ [a]\<rparr>,
               avatars := setMounted (avatars g) a ON_BOAT\<rparr>"
          using ongoing ON_DOCK r
          by (simp add: handleAvatarClick_def hasPassenger_def addPassenger_def
              removePassenger_def Let_def)
        from True have room: "length (passengers (boat g)) < maxCapacity (boat g)"
          by (simp add: isFull_def)
        show ?thesis
          unfolding eq
        proof (rule game_inv_same_timers [OF inv])
          show "mset (placement ((assign g r ((deref g r)\<lparr>passengers := remove1 a (passengers (deref g r))\<rparr>))
              \<lparr>boat := (boat g)\<lparr>passengers := passengers (boat g) @ [a]\<rparr>,
               avatars := setMounted (avatars g) a ON_BOAT\<rparr>)) = mset (placement g)"
            using True by (cases r) (simp_all add: placement_def)
        qed (use room in \<open>cases r; simp\<close>)+
      qed
    next
      case ON_BOAT
      show ?thesis
      proof (cases "a \<in> set (passengers (boat g))")
        case False
        then have "state_of (handleAvatarClick g a) = g"
          using ongoing ON_BOAT by (simp add: handleAvatarClick_def hasPassenger_def)
        with inv show ?thesis by simp
      next
        case True
        then have "0 < length (passengers (boat g))"
          by (rule length_pos_if_in_set)
        with len cap have free: "\<not> isFull (deref g r)"
          by (cases r) (simp_all add: isFull_def del: length_greater_0_conv)
        have eq: "state_of (handleAvatarClick g a) =
            (assign (g\<lparr>boat := (boat g)\<lparr>passengers := remove1 a (passengers (boat g))\<rparr>\<rparr>) r
               ((deref g r)\<lparr>passengers := passengers (deref g r) @ [a]\<rparr>))
              \<lparr>avatars := setMounted (avatars g) a ON_DOCK\<rparr>"
          using ongoing ON_BOAT r True free
          by (simp add: handleAvatarClick_def hasPassenger_def addPassenger_def
              removePassenger_def Let_def)
        have shorter: "length (remove1 a (passengers (boat g))) \<le> maxCapacity (boat g)"
          using cap(1) True by (simp add: length_remove1)
        show ?thesis
          unfolding eq
        proof (rule game_inv_same_timers [OF inv])
          show "mset (placement ((assign (g\<lparr>boat := (boat g)\<lparr>passengers := remove1 a (passengers (boat g))\<rparr>\<rparr>) r
               ((deref g r)\<lparr>passengers := passengers (deref g r) @ [a]\<rparr>))
              \<lparr>avatars := setMounted (avatars g) a ON_DOCK\<rparr>)) = mset (placement g)"
            using True by (cases r) (simp_all add: placement_def)
        qed (use shorter in \<open>cases r; simp\<close>)+
      qed
    qed
  qed
qed

lemma handleBoatClick_inv:
  assumes inv: "game_inv g"
  shows "game_inv (state_of (handleBoatClick g))"
proof (cases "status g = ONGOING \<and> canSail (boat g)")
  case False
  then have "state_of (handleBoatClick g) = g"
    by (auto simp: handleBoatClick_def)
  with inv show ?thesis by simp
next
  case True
  let ?to = "getDestinationLocation (boat g)"
  have eq: "state_of (handleBoatClick g) =
      g\<lparr>boat := (boat g)\<lparr>bstatus := SAILING, blocation := RIVER\<rparr>,
        avatars := setLocationAll (passengers (boat g)) RIVER (avatars g),
        tripCount := tripCount g + 1,
        view := (view g)\<lparr>isAnimating := True, timers := timers (view g) @ [VoyageTimer ?to]\<rparr>\<rparr>"
    using True by (simp add: handleBoatClick_def getPassengers_def playVoyageAnimation_def Let_def)
  have to: "?to \<noteq> RIVER"
    by (simp add: getDestinationLocation_def)
  from True inv have "list_all (timer_ok (state_of (handleBoatClick g))) (timers (view g))"
    by (auto simp: game_inv_def intro: timers_ok_ongoing)
  then show ?thesis
    using inv to unfolding eq by (simp add: game_inv_def placement_def)
qed

lemma handleFeast_view:
  "timers (view (state_of (handleFeast g d))) = timers (view g) \<or>
   timers (view (state_of (handleFeast g d))) = timers (view g) @ [FeastTimer]"
  by (simp add: handleFeast_def playFeastAnimation_def Let_def split: prod.splits)

lemma handleGameStatus_idle: "status g \<noteq> ONGOING \<Longrightarrow> handleGameStatus g = (Normal, [], g)"
  by (simp add: handleGameStatus_def)

lemma handleGameStatus_view:
  "timers (view (state_of (handleGameStatus g))) = timers (view g) \<or>
   timers (view (state_of (handleGameStatus g))) = timers (view g) @ [FeastTimer] \<and>
   status (state_of (handleGameStatus g)) = LOST"
  using handleFeast_view [of "g\<lparr>status := LOST\<rparr>"]
  by (auto simp: handleGameStatus_def handleFeast_frame)

lemma timerFires_inv:
  assumes inv: "game_inv g"
  shows "game_inv (state_of (timerFires g))"
proof (cases "timers (view g)")
  case Nil
  with inv show ?thesis by (simp add: timerFires_def)
next
  case (Cons t ts)
  from inv Cons have ok: "timer_ok g t" "list_all (timer_ok g) ts"
    by (simp_all add: game_inv_def)
  show ?thesis
  proof (cases t)
    case FeastTimer
    with Cons have eq: "state_of (timerFires g) =
        g\<lparr>view := (view g)\<lparr>timers := ts, isAnimating := False\<rparr>\<rparr>"
      by (simp add: timerFires_def)
    from ok(1) FeastTimer have docked: "blocation (boat g) \<noteq> RIVER"
      by simp
    have "list_all (timer_ok (g\<lparr>view := (view g)\<lparr>timers := ts, isAnimating := False\<rparr>\<rparr>)) ts =
        list_all (timer_ok g) ts"
      by (rule timers_ok_cong) simp_all
    with ok(2) inv docked show ?thesis
      unfolding eq by (simp add: game_inv_def placement_def)
  next
    case (VoyageTimer voyageTo)
    define g3 where "g3 =
        g\<lparr>view := (view g)\<lparr>timers := ts, isAnimating := False\<rparr>,
          boat := (boat g)\<lparr>bstatus := DOCKED, blocation := voyageTo\<rparr>,
          avatars := setLocationAll (passengers (boat g)) voyageTo (avatars g)\<rparr>"
    define g' where "g' = state_of (handleGameStatus g3)"
    from Cons VoyageTimer have eq: "state_of (timerFires g) = g'"
      by (simp add: timerFires_def voyageCallback_def getPassengers_def Let_def g3_def g'_def)
    from ok(1) VoyageTimer have to: "voyageTo \<noteq> RIVER"
      by simp
    have fr: "boat g' = boat g3" "dockOrigin g' = dockOrigin g3"
      "dockDestination g' = dockDestination g3" "avatars g' = avatars g3"
      "totalAvatars g' = totalAvatars g3" "numMonsters g' = numMonsters g3"
      "numHumans g' = numHumans g3" "boatCapacity g' = boatCapacity g3"
      unfolding g'_def by (rule handleGameStatus_frame)+
    have old: "timer_ok g' u" if u: "u \<in> set ts" for u
    proof (cases u)
      case (VoyageTimer l)
      with ok(2) u show ?thesis
        by (auto simp: list_all_iff)
    next
      case FeastTimer
      with ok(2) u have "status g \<noteq> ONGOING"
        by (auto simp: list_all_iff)
      then have "status g3 \<noteq> ONGOING"
        by (simp add: g3_def)
      then have "g' = g3"
        unfolding g'_def by (simp add: handleGameStatus_idle)
      with \<open>status g3 \<noteq> ONGOING\<close> to FeastTimer show ?thesis
        by (simp add: g3_def)
    qed
    have timers: "list_all (timer_ok g') (timers (view g'))"
    proof -
      from handleGameStatus_view [of g3]
      consider "timers (view g') = ts" | "timers (view g') = ts @ [FeastTimer]" "status g' = LOST"
        unfolding g'_def by (auto simp: g3_def)
      then show ?thesis
      proof cases
        case 1
        with old show ?thesis by (simp add: list_all_iff)
      next
        case 2
        with old to fr(1) show ?thesis by (simp add: list_all_iff g3_def)
      qed
    qed
    from inv to timers show ?thesis
      unfolding eq by (simp add: game_inv_def placement_def fr g3_def)
  qed
qed

lemma exec_inv:
  assumes "game_inv g"
  shows "game_inv (state_of (exec g c))"
proof (cases c)
  case (AvatarClick a)
  with assms show ?thesis
    by (simp add: avatarClickListener_def handleAvatarClick_inv)
next
  case BoatClick
  with assms show ?thesis
    by (simp add: boatClickListener_def handleBoatClick_inv)
next
  case TimerFires
  with assms show ?thesis
    by (simp add: timerFires_inv)
qed

lemma reachable_inv: "reachable g \<Longrightarrow> game_inv g"
  by (induction rule: reachable.induct)
    (simp_all add: startNewGame_inv exec_inv restartGame_def configSubmit_def)

lemma boatButtonClick_state:
  "state_of (boatButtonClick destroyedViews g) = state_of (boatClickListener g) \<and>
   events_of (boatButtonClick destroyedViews g) = events_of (boatClickListener g)"
  by (induction destroyedViews) (simp_all add: staleBoatClickListener_def Let_def)

lemma reachable_engine_reachable: "reachable g \<Longrightarrow> engine_reachable g"
proof (induction rule: reachable.induct)
  case (reachable_start nMonsters nHumans boatCap)
  show ?case by (rule engine_start)
next
  case (reachable_step g c)
  then show ?case
    by (cases c)
      (auto simp: avatarClickListener_def boatClickListener_def
        intro: engine_avatar engine_boat engine_timer)
next
  case (reachable_restart g)
  show ?case unfolding restartGame_def by (rule engine_start)
next
  case (reachable_config g nMonsters nHumans boatCap)
  then show ?case by (simp add: configSubmit_def engine_start)
qed

lemma reachable_dock_room:
  assumes "reachable g" and "a \<in> set (passengers (boat g))"
  shows "length (passengers (deref g r)) < maxCapacity (deref g r)"
proof -
  from assms(1) have inv: "game_inv g"
    by (rule reachable_inv)
  from assms(2) have "0 < length (passengers (boat g))"
    by (rule length_pos_if_in_set)
  with inv_lengths [OF inv] inv show ?thesis
    by (cases r) (simp_all add: game_inv_def del: length_greater_0_conv)
qed

lemma handleAvatarClick_boat_bound:
  assumes "length (passengers (boat g)) \<le> maxCapacity (boat g)"
  shows "length (passengers (boat (state_of (handleAvatarClick g a)))) \<le>
           maxCapacity (boat (state_of (handleAvatarClick g a))) \<and>
         maxCapacity (boat (state_of (handleAvatarClick g a))) = maxCapacity (boat g)"
proof -
  have le: "length (remove1 a (passengers (boat g))) \<le> maxCapacity (boat g)"
    using assms length_remove1 [of a "passengers (boat g)"] by (simp split: if_splits)
  show ?thesis
    using assms le
    by (simp add: handleAvatarClick_def mount_defs setMounted_def Let_def split: option.splits)
qed

lemma handleGameStatus_boat: "boat (state_of (handleGameStatus g)) = boat g"
  by (rule handleGameStatus_frame)

lemma timerFires_boat_bound:
  "passengers (boat (state_of (timerFires g))) = passengers (boat g) \<and>
   maxCapacity (boat (state_of (timerFires g))) = maxCapacity (boat g)"
  by (simp add: timerFires_def voyageCallback_def handleGameStatus_boat Let_def
      split: list.splits timer.splits)

lemma handleBoatClick_boat_bound:
  "passengers (boat (state_of (handleBoatClick g))) = passengers (boat g) \<and>
   maxCapacity (boat (state_of (handleBoatClick g))) = maxCapacity (boat g)"
  by (simp add: handleBoatClick_def Let_def)

subsection \<open>Reachable states\<close>

text \<open>
  C8, as stated: in every state that the commands of the engine lead to, every avatar is in
  exactly one container. The methods of the game, called as they are, do not keep this:
  \<open>handleAvatarClick\<close> on a passenger during the voyage removes it from the boat and then
  fails on the dock that \<open>getDockByLocation\<close> does not find. \<open>monster-0\<close> is then in no
  container, five avatars are placed out of six, and this stays so when the voyage ends.
\<close>

theorem avatar_lost_in_flight_counterexample:
  "engine_reachable exLost \<and> engine_reachable (state_of (timerFires exLost)) \<and>
   length (avatars exLost) = 6 \<and> totalAvatars exLost = 6 \<and>
   passengers (dockOrigin exLost) = [1, 2, 3, 4, 5] \<and>
   passengers (boat exLost) = [] \<and>
   passengers (dockDestination exLost) = [] \<and>
   blocation (boat (state_of (timerFires exLost))) = DESTINATION \<and>
   placement (state_of (timerFires exLost)) = [1, 2, 3, 4, 5]"
proof -
  have r: "engine_reachable exLost"
    unfolding exLost_def by (intro engine_start engine_avatar engine_boat)
  then have r': "engine_reachable (state_of (timerFires exLost))"
    by (rule engine_timer)
  have "length (avatars exLost) = 6 \<and> totalAvatars exLost = 6 \<and>
      passengers (dockOrigin exLost) = [1, 2, 3, 4, 5] \<and>
      passengers (boat exLost) = [] \<and>
      passengers (dockDestination exLost) = [] \<and>
      blocation (boat (state_of (timerFires exLost))) = DESTINATION \<and>
      placement (state_of (timerFires exLost)) = [1, 2, 3, 4, 5]"
    by code_simp
  with r r' show ?thesis
    by simp
qed

text \<open>
  C8, amended. In every state that a game reaches from \<open>startNewGame\<close> through the click
  listeners of the view, which pass a click on to the game only while \<open>isAnimating\<close> is
  false, and through the timers, restarts and new configurations, every avatar of the
  game is in exactly one of the origin dock, the boat and the destination dock, no
  container holds an avatar twice or anything but an avatar of the game, and the three
  containers together hold \<open>totalAvatars\<close> avatars, the configured number of monsters plus
  humans.
\<close>

theorem avatars_placed_once:
  assumes "reachable g"
  shows "(\<forall>a < length (avatars g).
            (a \<in> set (passengers (dockOrigin g)) \<and> a \<notin> set (passengers (boat g)) \<and>
             a \<notin> set (passengers (dockDestination g))) \<or>
            (a \<notin> set (passengers (dockOrigin g)) \<and> a \<in> set (passengers (boat g)) \<and>
             a \<notin> set (passengers (dockDestination g))) \<or>
            (a \<notin> set (passengers (dockOrigin g)) \<and> a \<notin> set (passengers (boat g)) \<and>
             a \<in> set (passengers (dockDestination g)))) \<and>
         distinct (passengers (dockOrigin g)) \<and> distinct (passengers (boat g)) \<and>
         distinct (passengers (dockDestination g)) \<and>
         (\<forall>a \<in> set (placement g). a < length (avatars g)) \<and>
         length (passengers (dockOrigin g)) + length (passengers (boat g)) +
           length (passengers (dockDestination g)) = totalAvatars g \<and>
         length (avatars g) = totalAvatars g \<and>
         totalAvatars g = numMonsters g + numHumans g"
proof -
  from assms have inv: "game_inv g"
    by (rule reachable_inv)
  then have m: "mset (placement g) = mset [0..<length (avatars g)]"
    by (simp add: game_inv_def)
  from mset_eq_imp_distinct_iff [OF m] have d: "distinct (placement g)"
    by simp
  from mset_eq_setD [OF m] have s: "set (placement g) = {0..<length (avatars g)}"
    by simp
  from inv have n: "length (avatars g) = totalAvatars g"
    "totalAvatars g = numMonsters g + numHumans g"
    by (simp_all add: game_inv_def)
  from d s n inv_lengths [OF inv] show ?thesis
    unfolding placement_def by auto
qed

theorem avatars_placed_once_witness:
  "reachable exArrived \<and>
   length (passengers (dockOrigin exArrived)) + length (passengers (boat exArrived)) +
     length (passengers (dockDestination exArrived)) = 6 \<and>
   distinct (passengers (dockOrigin exArrived)) \<and>
   passengers (boat exArrived) = [0]"
proof -
  have h: "totalAvatars exArrived = 6 \<and> passengers (boat exArrived) = [0]"
    by code_simp
  from avatars_placed_once [OF reachable_exArrived] h reachable_exArrived show ?thesis
    by simp
qed

text \<open>
  C9. In every state that a game reaches, the boat holds at most \<open>maxCapacity\<close>
  passengers, and \<open>maxCapacity\<close> is the configured boat capacity. Moreover each operation
  by itself, from any state within the bound, leads to a state within the bound:
  \<open>handleAvatarClick\<close>, \<open>handleBoatClick\<close> and the timer callbacks.
\<close>

theorem boat_capacity:
  "(reachable g \<longrightarrow>
      length (passengers (boat g)) \<le> maxCapacity (boat g) \<and>
      maxCapacity (boat g) = boatCapacity g) \<and>
   (length (passengers (boat g)) \<le> maxCapacity (boat g) \<longrightarrow>
      length (passengers (boat (state_of (handleAvatarClick g a)))) \<le>
        maxCapacity (boat (state_of (handleAvatarClick g a))) \<and>
      length (passengers (boat (state_of (handleBoatClick g)))) \<le>
        maxCapacity (boat (state_of (handleBoatClick g))) \<and>
      length (passengers (boat (state_of (timerFires g)))) \<le>
        maxCapacity (boat (state_of (timerFires g))))"
proof (intro conjI impI)
  assume "reachable g"
  then have "game_inv g"
    by (rule reachable_inv)
  then show "length (passengers (boat g)) \<le> maxCapacity (boat g)"
    and "maxCapacity (boat g) = boatCapacity g"
    by (simp_all add: game_inv_def)
next
  assume b: "length (passengers (boat g)) \<le> maxCapacity (boat g)"
  from handleAvatarClick_boat_bound [OF b, of a]
  show "length (passengers (boat (state_of (handleAvatarClick g a)))) \<le>
        maxCapacity (boat (state_of (handleAvatarClick g a)))"
    by (rule conjunct1)
  from b show "length (passengers (boat (state_of (handleBoatClick g)))) \<le>
        maxCapacity (boat (state_of (handleBoatClick g)))"
    by (simp add: handleBoatClick_boat_bound)
  from b show "length (passengers (boat (state_of (timerFires g)))) \<le>
        maxCapacity (boat (state_of (timerFires g)))"
    by (simp add: timerFires_boat_bound)
qed

theorem boat_capacity_witness:
  "reachable exArrived \<and> length (passengers (boat exArrived)) \<le> 2 \<and>
   length (passengers (boat (state_of (handleAvatarClick exBoarded 1)))) \<le>
     maxCapacity (boat (state_of (handleAvatarClick exBoarded 1)))"
proof -
  have h1: "boatCapacity exArrived = 2"
    by code_simp
  have h2: "length (passengers (boat exBoarded)) \<le> maxCapacity (boat exBoarded)"
    by code_simp
  from boat_capacity [of exArrived 0] reachable_exArrived h1
  have a: "length (passengers (boat exArrived)) \<le> 2"
    by simp
  from boat_capacity [of exBoarded 1] h2
  have b: "length (passengers (boat (state_of (handleAvatarClick exBoarded 1)))) \<le>
      maxCapacity (boat (state_of (handleAvatarClick exBoarded 1)))"
    by simp
  from a b reachable_exArrived show ?thesis
    by simp
qed

subsection \<open>Commands during a voyage, and rejections\<close>

text \<open>
  C4, as stated: during a voyage the engine rejects or ignores every command. The game
  itself has no busy flag, and \<open>Game.handleBoatClick\<close> tests only the status and
  \<open>canSail\<close>: called on the game in flight, it launches again, counts a second trip and
  schedules a second arrival.
\<close>

theorem launch_in_flight_counterexample:
  "reachable exInFlight \<and> status exInFlight = ONGOING \<and>
   blocation (boat exInFlight) = RIVER \<and>
   timers (view exInFlight) = [VoyageTimer DESTINATION] \<and>
   tripCount exInFlight = 1 \<and>
   tripCount (state_of (handleBoatClick exInFlight)) = 2 \<and>
   timers (view (state_of (handleBoatClick exInFlight))) =
     [VoyageTimer DESTINATION, VoyageTimer ORIGIN]"
proof -
  have "status exInFlight = ONGOING \<and>
      blocation (boat exInFlight) = RIVER \<and>
      timers (view exInFlight) = [VoyageTimer DESTINATION] \<and>
      tripCount exInFlight = 1 \<and>
      tripCount (state_of (handleBoatClick exInFlight)) = 2 \<and>
      timers (view (state_of (handleBoatClick exInFlight))) =
        [VoyageTimer DESTINATION, VoyageTimer ORIGIN]"
    by code_simp
  with reachable_exInFlight show ?thesis
    by simp
qed

text \<open>
  C4, amended. The flag is \<open>isAnimating\<close> of the view. In every state that a game reaches,
  while the boat is on the river (from the launch until the callback of the voyage timer
  docks it) the flag is set, and the click listeners of the avatars and of the boat do
  nothing: they do not call the game, and the state is unchanged.
\<close>

theorem clicks_ignored_in_flight:
  assumes "reachable g" and "blocation (boat g) = RIVER"
  shows "isAnimating (view g) \<and>
         avatarClickListener g a = (Normal, [], g) \<and>
         boatClickListener g = (Normal, [], g)"
  using reachable_inv [OF assms(1)] assms(2)
  by (simp add: game_inv_def avatarClickListener_def boatClickListener_def)

theorem clicks_ignored_in_flight_witness:
  "reachable exInFlight \<and> blocation (boat exInFlight) = RIVER \<and>
   isAnimating (view exInFlight) \<and>
   avatarClickListener exInFlight 0 = (Normal, [], exInFlight) \<and>
   boatClickListener exInFlight = (Normal, [], exInFlight)"
proof -
  have h: "blocation (boat exInFlight) = RIVER"
    by code_simp
  from clicks_ignored_in_flight [OF reachable_exInFlight h, of 0] h reachable_exInFlight
  show ?thesis
    by simp
qed

text \<open>
  C5, as stated: no operation of the engine throws for a command given during a voyage.
  While the boat is on the river \<open>getDockByLocation\<close> returns \<open>null\<close>, and
  \<open>Game.handleAvatarClick\<close> calls a method on it: for \<open>monster-1\<close> on the dock before any
  change, for \<open>monster-0\<close> on the boat after it has been removed from the boat.
\<close>

theorem click_in_flight_counterexample:
  "reachable exInFlight \<and> status exInFlight = ONGOING \<and>
   blocation (boat exInFlight) = RIVER \<and>
   handleAvatarClick exInFlight 1 = (TypeError, [], exInFlight) \<and>
   completion_of (handleAvatarClick exInFlight 0) = TypeError \<and>
   passengers (boat exInFlight) = [0] \<and>
   passengers (boat (state_of (handleAvatarClick exInFlight 0))) = []"
proof -
  have "status exInFlight = ONGOING \<and>
      blocation (boat exInFlight) = RIVER \<and>
      handleAvatarClick exInFlight 1 = (TypeError, [], exInFlight) \<and>
      completion_of (handleAvatarClick exInFlight 0) = TypeError \<and>
      passengers (boat exInFlight) = [0] \<and>
      passengers (boat (state_of (handleAvatarClick exInFlight 0))) = []"
    by code_simp
  with reachable_exInFlight show ?thesis
    by simp
qed

text \<open>
  C5, amended. On a game that is not ongoing \<open>handleAvatarClick\<close> and \<open>handleBoatClick\<close>
  return at once and change nothing. \<open>handleBoatClick\<close> never throws, and with too few
  passengers it leaves the game unchanged. With the boat at a dock \<open>handleAvatarClick\<close>
  does not throw, and it leaves the game unchanged when the avatar is on the other shore
  or the boat is full. A command during a voyage is kept from the game by the view: while
  \<open>isAnimating\<close> is set, the click listeners of the current view return without calling
  the game; and in every state that a game reaches with \<open>isAnimating\<close> clear, the boat is at
  a dock, so that the call which a listener then makes to \<open>handleAvatarClick\<close> or
  \<open>handleBoatClick\<close> does not throw.
\<close>

theorem rejections_do_not_throw:
  "(status g \<noteq> ONGOING \<longrightarrow>
      handleAvatarClick g a = (Normal, [], g) \<and> handleBoatClick g = (Normal, [], g)) \<and>
   completion_of (handleBoatClick g) = Normal \<and>
   (length (passengers (boat g)) < minCapacity (boat g) \<longrightarrow>
      state_of (handleBoatClick g) = g) \<and>
   (blocation (boat g) \<noteq> RIVER \<longrightarrow> completion_of (handleAvatarClick g a) = Normal) \<and>
   (getDockByLocation (blocation (boat g)) = Some r \<and> mounted (avatars g ! a) = ON_DOCK \<and>
    (a \<notin> set (passengers (deref g r)) \<or>
     length (passengers (boat g)) \<ge> maxCapacity (boat g)) \<longrightarrow>
      state_of (handleAvatarClick g a) = g) \<and>
   (isAnimating (view g) \<longrightarrow>
      avatarClickListener g a = (Normal, [], g) \<and> boatClickListener g = (Normal, [], g)) \<and>
   (reachable g \<and> \<not> isAnimating (view g) \<longrightarrow>
      blocation (boat g) \<noteq> RIVER \<and>
      completion_of (handleAvatarClick g a) = Normal \<and>
      completion_of (handleBoatClick g) = Normal)"
proof (intro conjI impI)
  assume "status g \<noteq> ONGOING"
  then show "handleAvatarClick g a = (Normal, [], g)"
    by (simp add: handleAvatarClick_def)
next
  assume "status g \<noteq> ONGOING"
  then show "handleBoatClick g = (Normal, [], g)"
    by (simp add: handleBoatClick_def)
next
  show b: "completion_of (handleBoatClick g) = Normal"
    by (simp add: handleBoatClick_def Let_def)
next
  assume "length (passengers (boat g)) < minCapacity (boat g)"
  then show "state_of (handleBoatClick g) = g"
    by (simp add: handleBoatClick_def canSail_def)
next
  assume "blocation (boat g) \<noteq> RIVER"
  then show "completion_of (handleAvatarClick g a) = Normal"
    by (cases "blocation (boat g)")
      (simp_all add: handleAvatarClick_def getDockByLocation_def mount_defs Let_def)
next
  assume "getDockByLocation (blocation (boat g)) = Some r \<and> mounted (avatars g ! a) = ON_DOCK \<and>
    (a \<notin> set (passengers (deref g r)) \<or>
     length (passengers (boat g)) \<ge> maxCapacity (boat g))"
  then show "state_of (handleAvatarClick g a) = g"
    by (auto simp: handleAvatarClick_def mount_defs)
next
  assume "isAnimating (view g)"
  then show "avatarClickListener g a = (Normal, [], g)"
    by (simp add: avatarClickListener_def)
next
  assume "isAnimating (view g)"
  then show "boatClickListener g = (Normal, [], g)"
    by (simp add: boatClickListener_def)
next
  assume r: "reachable g \<and> \<not> isAnimating (view g)"
  then have inv: "game_inv g"
    by (simp add: reachable_inv)
  with r show docked: "blocation (boat g) \<noteq> RIVER"
    by (auto simp: game_inv_def)
  from inv_docked [OF inv] r obtain r' where
    "getDockByLocation (blocation (boat g)) = Some r'"
    by blast
  then show "completion_of (handleAvatarClick g a) = Normal"
    by (simp add: handleAvatarClick_def mount_defs Let_def)
next
  show "completion_of (handleBoatClick g) = Normal"
    by (simp add: handleBoatClick_def Let_def)
qed

theorem rejections_do_not_throw_witness:
  "state_of (handleBoatClick exStart) = exStart \<and>
   completion_of (handleBoatClick exStart) = Normal \<and>
   state_of (handleAvatarClick exArrived 1) = exArrived \<and>
   completion_of (handleAvatarClick exArrived 1) = Normal \<and>
   avatarClickListener exInFlight 1 = (Normal, [], exInFlight) \<and>
   handleAvatarClick exAllAcrossRun 0 = (Normal, [], exAllAcrossRun) \<and>
   completion_of (handleAvatarClick exArrived 0) = Normal"
proof -
  have h1: "length (passengers (boat exStart)) < minCapacity (boat exStart)"
    by code_simp
  have h2: "blocation (boat exArrived) \<noteq> RIVER \<and>
      getDockByLocation (blocation (boat exArrived)) = Some DockDestination \<and>
      mounted (avatars exArrived ! 1) = ON_DOCK \<and>
      1 \<notin> set (passengers (deref exArrived DockDestination))"
    by code_simp
  have h3: "isAnimating (view exInFlight)"
    by code_simp
  have h4: "status exAllAcrossRun \<noteq> ONGOING"
    by code_simp
  have h5: "\<not> isAnimating (view exArrived)"
    by code_simp
  from rejections_do_not_throw [of exStart 0 DockOrigin] h1
  have a: "state_of (handleBoatClick exStart) = exStart \<and>
      completion_of (handleBoatClick exStart) = Normal"
    by simp
  from rejections_do_not_throw [of exArrived 1 DockDestination] h2
  have b: "state_of (handleAvatarClick exArrived 1) = exArrived \<and>
      completion_of (handleAvatarClick exArrived 1) = Normal"
    by simp
  from rejections_do_not_throw [of exInFlight 1 DockOrigin] h3
  have c: "avatarClickListener exInFlight 1 = (Normal, [], exInFlight)"
    by simp
  from rejections_do_not_throw [of exAllAcrossRun 0 DockOrigin] h4
  have d: "handleAvatarClick exAllAcrossRun 0 = (Normal, [], exAllAcrossRun)"
    by simp
  from rejections_do_not_throw [of exArrived 0 DockDestination] reachable_exArrived h5
  have e: "completion_of (handleAvatarClick exArrived 0) = Normal"
    by simp
  from a b c d e show ?thesis
    by simp
qed

end
